theory Spec2Isabelle
  imports Main "HOL-Library.Word" "HOL-Library.Sublist"
begin

section \<open>Python values, exceptions and calls\<close>

text \<open>
  The two modules are Python. Values whose dynamic type matters for a claim are
  elements of \<open>pyval\<close>: a tuple is a list of values, and a method that is read as an
  attribute without being called is a bound method object. An address is the pair
  \<open>(host, port)\<close>. Exceptions are values of \<open>py_exception\<close>; a function that can raise
  returns \<open>py_exception + 'a\<close> with \<open>Inl\<close> for the raised exception. All exceptions
  modelled are subclasses of \<open>Exception\<close>.
\<close>

text \<open>
  A proxy mode (module \<open>mode_specs\<close>, not part of the sources at hand) with the
  attributes \<open>mode_servers\<close> reads: \<open>type\<close>, \<open>full_spec\<close>, \<open>data\<close>,
  \<open>custom_listen_host\<close>, \<open>custom_listen_port\<close> and, for a udp mode, \<open>inner_mode\<close>.
\<close>

datatype proxy_mode = ProxyMode
  (mode_type: string)
  (full_spec: string)
  (data: string)
  (custom_listen_host: "string option")
  (custom_listen_port: "int option")
  (inner_mode: "proxy_mode option")

type_synonym address = "string \<times> int"

type_synonym bytes = "8 word list"

datatype pyval =
    PNone
  | PBool bool
  | PInt int
  | PStr string
  | PBytes bytes
  | PTuple "pyval list"
  | PTransport nat
  | PMode proxy_mode
  | PManager nat
  | PBoundMethod string

datatype py_exception =
    OSError "int option" string "string option"
  | AssertionError
  | TypeError
  | AttributeError
  | KeyError
  | StructError
  | ValueError string
  | OtherException string

text \<open>Truth value of an object in \<open>if x:\<close>; a bound method is always true.\<close>

fun truthy :: "pyval \<Rightarrow> bool" where
  "truthy PNone = False"
| "truthy (PBool b) = b"
| "truthy (PInt i) = (i \<noteq> 0)"
| "truthy (PStr s) = (s \<noteq> [])"
| "truthy (PBytes b) = (b \<noteq> [])"
| "truthy (PTuple vs) = (vs \<noteq> [])"
| "truthy (PTransport t) = True"
| "truthy (PMode m) = True"
| "truthy (PManager g) = True"
| "truthy (PBoundMethod n) = True"

text \<open>An address as the tuple \<open>(host, port)\<close> it is in Python.\<close>

definition addr_val :: "address \<Rightarrow> pyval" where
  "addr_val a = PTuple [PStr (fst a), PInt (snd a)]"

text \<open>
  Binding of positional arguments to a function that declares \<open>n\<close> positional
  parameters without defaults (\<open>self\<close> not counted): any other number of arguments
  raises \<open>TypeError\<close> before the body runs.
\<close>

definition bind_positional :: "nat \<Rightarrow> pyval list \<Rightarrow> py_exception + pyval list" where
  "bind_positional n args = (if length args = n then Inr args else Inl TypeError)"

text \<open>\<open>str(i)\<close> of an integer, as an f-string renders it.\<close>

definition digit_char :: "nat \<Rightarrow> char" where
  "digit_char d = ''0123456789'' ! d"

function str_nat :: "nat \<Rightarrow> string" where
  "str_nat n = (if n < 10 then [digit_char n] else str_nat (n div 10) @ [digit_char (n mod 10)])"
  by pat_completeness auto
termination
  by (relation "measure (\<lambda>n. n)") auto

declare str_nat.simps [simp del]

definition str_int :: "int \<Rightarrow> string" where
  "str_int i = (if i < 0 then ''-'' @ str_nat (nat (- i)) else str_nat (nat i))"

text \<open>\<open>sep.join(xs)\<close>.\<close>

fun join_str :: "string \<Rightarrow> string list \<Rightarrow> string" where
  "join_str sep [] = []"
| "join_str sep [x] = x"
| "join_str sep (x # y # ys) = x @ sep @ join_str sep (y # ys)"

section \<open>mode\_servers: data model\<close>

text \<open>A listening socket, with what \<open>getsockname()\<close> returns; a server with its sockets.\<close>

datatype socket = Socket (getsockname: address)

record server =
  sockets :: "socket list"

text \<open>The concrete subclasses of \<open>ServerInstance\<close>.\<close>

datatype instance_class =
    RegularInstance
  | UpstreamInstance
  | TransparentInstance
  | ReverseInstance
  | Socks5Instance
  | DnsInstance
  | UdpInstance

text \<open>
  A server instance object: its class, the attributes set by \<open>ServerInstance.__init__\<close>
  (\<open>mode\<close>, \<open>manager\<close>, \<open>last_exception\<close>), the attributes \<open>_server\<close> and
  \<open>_listen_addrs\<close> of \<open>AsyncioServerInstance\<close>, and \<open>inner_server\<close> of \<open>UdpInstance\<close>.
  The manager is a reference (its \<open>connections\<close> dictionary lives in the world state).
\<close>

datatype server_instance = Instance
  (cls: instance_class)
  (mode: proxy_mode)
  (manager: nat)
  (last_exception: "py_exception option")
  (private_server: "server option")
  (private_listen_addrs: "address list")
  (inner_server: "server_instance option")

fun set_last_exception :: "py_exception option \<Rightarrow> server_instance \<Rightarrow> server_instance" where
  "set_last_exception e (Instance c m g _ s a i) = Instance c m g e s a i"

fun set_server :: "server option \<Rightarrow> server_instance \<Rightarrow> server_instance" where
  "set_server s (Instance c m g e _ a i) = Instance c m g e s a i"

fun set_listen_addrs :: "address list \<Rightarrow> server_instance \<Rightarrow> server_instance" where
  "set_listen_addrs a (Instance c m g e s _ i) = Instance c m g e s a i"

fun set_inner_server :: "server_instance option \<Rightarrow> server_instance \<Rightarrow> server_instance" where
  "set_inner_server i (Instance c m g e s a _) = Instance c m g e s a i"

text \<open>
  A fresh object after \<open>ServerInstance.__init__(mode, manager)\<close>: \<open>last_exception\<close> is
  \<open>None\<close>, and \<open>_server\<close> and \<open>_listen_addrs\<close> have their class-level defaults
  \<open>None\<close> and \<open>tuple()\<close>.
\<close>

definition ServerInstance_init :: "instance_class \<Rightarrow> proxy_mode \<Rightarrow> nat \<Rightarrow> server_instance" where
  "ServerInstance_init c m g = Instance c m g None None [] None"

text \<open>
  A connection handler, with the attributes \<open>handle_udp_datagram\<close> writes
  (\<open>client.transport_protocol\<close>, \<open>timeout_watchdog.CONNECTION_TIMEOUT\<close>,
  \<open>layer.context.server.address\<close>, \<open>layer.context.server.transport_protocol\<close>,
  \<open>layer\<close>) and the datagrams fed to its reader, oldest first.
\<close>

datatype layer =
    NoLayer
  | HttpProxy
  | HttpUpstreamProxy
  | TransparentProxy
  | ReverseProxy
  | Socks5Proxy
  | DNSLayer

record handler =
  handler_mode :: proxy_mode
  client_transport_protocol :: string
  CONNECTION_TIMEOUT :: int
  server_address :: pyval
  server_transport_protocol :: string
  top_layer :: layer
  reader_fed :: "(bytes \<times> address) list"

text \<open>
  What the module reaches outside itself, at the time of one call: the options and the
  mode's \<open>listen_host\<close>/\<open>listen_port\<close> methods, the two \<open>start_server\<close> functions,
  closing a server (\<open>server.close()\<close> followed by \<open>await server.wait_closed()\<close>, with the
  exception raised, if any), \<open>errno.EADDRINUSE\<close>, \<open>str()\<close> of an exception and of any
  other object, \<open>human.format_address\<close>, the constructor of \<open>ProxyConnectionHandler\<close>
  (the handler it builds for a mode) and \<open>ProxyMode.parse\<close>.
\<close>

record env =
  mode_listen_host :: "proxy_mode \<Rightarrow> string"
  mode_listen_port :: "proxy_mode \<Rightarrow> int"
  asyncio_start_server :: "string \<Rightarrow> int \<Rightarrow> py_exception + server"
  udp_start_server :: "string \<Rightarrow> int \<Rightarrow> pyval \<Rightarrow> py_exception + server"
  close_and_wait :: "server \<Rightarrow> py_exception option"
  EADDRINUSE :: int
  exc_str :: "py_exception \<Rightarrow> string"
  obj_str :: "pyval \<Rightarrow> string"
  format_address :: "pyval \<Rightarrow> string"
  new_handler :: "proxy_mode \<Rightarrow> handler"
  mode_parse :: "string \<Rightarrow> py_exception + proxy_mode"

text \<open>
  The state shared by the instances: the log written through \<open>ctx.log\<close> (level and
  message, oldest first), every manager's \<open>connections\<close> dictionary (connection id to
  handler object, by reference), the handler objects, and the tasks created with
  \<open>asyncio.create_task\<close> that have not run yet (oldest first).
\<close>

record world =
  log :: "(string \<times> string) list"
  connections :: "nat \<Rightarrow> (pyval \<rightharpoonup> nat)"
  handlers :: "nat \<rightharpoonup> handler"
  next_handler :: nat
  tasks :: "(pyval \<times> nat) list"

definition log_info :: "string \<Rightarrow> world \<Rightarrow> world" where
  "log_info msg w = w\<lparr>log := log w @ [(''info'', msg)]\<rparr>"

section \<open>mode\_servers: AsyncioServerInstance\<close>

definition is_running :: "server_instance \<Rightarrow> bool" where
  "is_running self = (private_server self \<noteq> None)"

definition listen_addrs :: "server_instance \<Rightarrow> address list" where
  "listen_addrs self = private_listen_addrs self"

text \<open>
  The value of the expression \<open>self.is_transparent\<close>. \<open>AsyncioServerInstance\<close>
  declares a property that returns \<open>False\<close>, \<open>TransparentInstance\<close> a class
  attribute \<open>True\<close>; \<open>DnsInstance\<close> and \<open>UdpInstance\<close> override it with a plain
  \<open>def\<close> (no \<open>@property\<close>), so that reading the attribute gives the bound method.
\<close>

fun is_transparent :: "server_instance \<Rightarrow> pyval" where
  "is_transparent (Instance TransparentInstance m g e s a i) = PBool True"
| "is_transparent (Instance DnsInstance m g e s a i) = PBoundMethod ''DnsInstance.is_transparent''"
| "is_transparent (Instance UdpInstance m g e s a i) = PBoundMethod ''UdpInstance.is_transparent''"
| "is_transparent (Instance c m g e s a i) = PBool False"

text \<open>
  The result of calling the method, \<open>self.is_transparent()\<close>, where it is one: the body
  of \<open>DnsInstance.is_transparent\<close> and of \<open>UdpInstance.is_transparent\<close> (which reads
  the attribute of the inner server). Calling a \<open>bool\<close> raises \<open>TypeError\<close>.
\<close>

fun call_is_transparent :: "server_instance \<Rightarrow> py_exception + pyval" where
  "call_is_transparent (Instance DnsInstance m g e s a i) = Inr (PBool (data m = ''transparent''))"
| "call_is_transparent (Instance UdpInstance m g e s a i) =
     (case i of None \<Rightarrow> Inl AttributeError | Some inner \<Rightarrow> Inr (is_transparent inner))"
| "call_is_transparent (Instance c m g e s a i) = Inl TypeError"

text \<open>The value of the expression \<open>self.log_desc\<close>.\<close>

fun log_desc :: "server_instance \<Rightarrow> pyval" where
  "log_desc (Instance RegularInstance m g e s a i) = PStr ''HTTP(S) proxy''"
| "log_desc (Instance UpstreamInstance m g e s a i) = PStr ''HTTP(S) proxy (upstream mode)''"
| "log_desc (Instance TransparentInstance m g e s a i) = PStr ''Transparent proxy''"
| "log_desc (Instance ReverseInstance m g e s a i) = PStr (''Reverse proxy to '' @ data m)"
| "log_desc (Instance Socks5Instance m g e s a i) = PStr ''SOCKS v5 proxy''"
| "log_desc (Instance DnsInstance m g e s a i) = PStr ''DNS server''"
| "log_desc (Instance UdpInstance m g e s a i) = PBoundMethod ''UdpInstance.log_desc''"

text \<open>A value inside an f-string: a \<open>str\<close> is itself, anything else goes through \<open>str()\<close>.\<close>

definition fmt :: "env \<Rightarrow> pyval \<Rightarrow> string" where
  "fmt env v = (case v of PStr s \<Rightarrow> s | _ \<Rightarrow> obj_str env v)"

text \<open>
  \<open>listen\<close>: \<open>TcpServerInstance\<close> calls \<open>asyncio.start_server(handler, host, port)\<close>,
  \<open>UdpServerInstance\<close> calls
  \<open>udp.start_server(handler, host, port, transparent=self.is_transparent)\<close>.
\<close>

definition is_udp_class :: "instance_class \<Rightarrow> bool" where
  "is_udp_class c = (c = DnsInstance \<or> c = UdpInstance)"

definition listen :: "env \<Rightarrow> server_instance \<Rightarrow> string \<Rightarrow> int \<Rightarrow> py_exception + server" where
  "listen env self host port =
     (if is_udp_class (cls self)
      then udp_start_server env host port (is_transparent self)
      else asyncio_start_server env host port)"

text \<open>The text appended to the message when the port is in use.\<close>

definition port_suggestion :: "proxy_mode \<Rightarrow> int \<Rightarrow> string" where
  "port_suggestion m port =
     [CHR 0x0A] @ ''Try specifying a different port by using `--mode '' @ full_spec m
       @ ''@'' @ str_int (port + 1) @ ''`.''"

definition listen_failure_message :: "env \<Rightarrow> server_instance \<Rightarrow> string \<Rightarrow> int \<Rightarrow> py_exception \<Rightarrow> string" where
  "listen_failure_message env self host port e =
     fmt env (log_desc self) @ '' failed to listen on '' @ (if host = [] then ''*'' else host)
       @ '':'' @ str_int port @ '' with '' @ exc_str env e"

text \<open>
  \<open>start\<close>. The first \<open>assert\<close> raises \<open>AssertionError\<close> when a server is already
  there. A failing \<open>listen\<close> leaves \<open>_server\<close> as it was; an \<open>OSError\<close> is stored in
  \<open>last_exception\<close> and a new \<open>OSError\<close> with the same errno and filename and the
  message built here is raised; any other exception is stored and re-raised.
\<close>

definition start :: "env \<Rightarrow> server_instance \<Rightarrow> world \<Rightarrow> (py_exception + unit) \<times> server_instance \<times> world" where
  "start env self w =
     (if private_server self \<noteq> None then (Inl AssertionError, self, w)
      else
        let host = mode_listen_host env (mode self);
            port = mode_listen_port env (mode self)
        in case listen env self host port of
             Inr srv \<Rightarrow>
               let self1 = set_server (Some srv) self;
                   self2 = set_listen_addrs (map getsockname (sockets srv)) self1;
                   self3 = set_last_exception None self2
               in (Inr (), self3,
                   log_info (fmt env (log_desc self3) @ '' listening at ''
                     @ join_str '' and '' (map (\<lambda>a. format_address env (addr_val a)) (private_listen_addrs self3))
                     @ ''.'') w)
           | Inl e \<Rightarrow>
               let self1 = set_last_exception (Some e) self
               in (case e of
                     OSError errno strerror filename \<Rightarrow>
                       let message = listen_failure_message env self1 host port e
                       in if errno = Some (EADDRINUSE env) \<and> custom_listen_port (mode self1) = None
                          then (if custom_listen_host (mode self1) \<noteq> None
                                then (Inl AssertionError, self1, w)
                                else (Inl (OSError errno (message @ port_suggestion (mode self1) port) filename),
                                      self1, w))
                          else (Inl (OSError errno message filename), self1, w)
                   | _ \<Rightarrow> (Inl e, self1, w)))"

text \<open>
  \<open>stop\<close>. The server and the addresses are taken out of the object first; the
  outcome of closing only decides \<open>last_exception\<close>, the result and the log line.
\<close>

definition stop :: "env \<Rightarrow> server_instance \<Rightarrow> world \<Rightarrow> (py_exception + unit) \<times> server_instance \<times> world" where
  "stop env self w =
     (case private_server self of
        None \<Rightarrow> (Inl AssertionError, self, w)
      | Some srv \<Rightarrow>
          let addrs = private_listen_addrs self;
              self1 = set_server None self;
              self2 = set_listen_addrs [] self1
          in (case close_and_wait env srv of
                Some e \<Rightarrow> (Inl e, set_last_exception (Some e) self2, w)
              | None \<Rightarrow>
                  (Inr (), set_last_exception None self2,
                   log_info (''Stopped '' @ fmt env (log_desc self2) @ '' at ''
                     @ join_str '' and '' (map (\<lambda>a. format_address env (addr_val a)) addrs) @ ''.'') w)))"

text \<open>
  The states an instance object can be in: built by \<open>ServerInstance.__init__\<close>, then
  any sequence of \<open>start\<close> and \<open>stop\<close>, each in the environment of its time. The
  environments are those in which a server that \<open>start_server\<close> returns has at least
  one socket (as \<open>asyncio\<close> guarantees for a host given as a string).
\<close>

definition sockets_ok :: "env \<Rightarrow> bool" where
  "sockets_ok env =
     ((\<forall>h p srv. asyncio_start_server env h p = Inr srv \<longrightarrow> sockets srv \<noteq> [])
      \<and> (\<forall>h p t srv. udp_start_server env h p t = Inr srv \<longrightarrow> sockets srv \<noteq> []))"

inductive reachable :: "server_instance \<Rightarrow> bool" where
  reach_init: "reachable (ServerInstance_init c m g)"
| reach_start: "reachable s \<Longrightarrow> sockets_ok env \<Longrightarrow> reachable (fst (snd (start env s w)))"
| reach_stop: "reachable s \<Longrightarrow> reachable (fst (snd (stop env s w)))"

section \<open>mode\_servers: UdpServerInstance, DnsInstance, UdpInstance\<close>

text \<open>
  \<open>make_top_layer(context)\<close>, on the handler that owns the context.
  \<open>DnsInstance\<close> first sets \<open>context.server.address\<close> to
  \<open>(self.mode.data or "resolve-local", 53)\<close>; \<open>UdpInstance\<close> delegates to its inner
  server.
\<close>

fun make_top_layer :: "server_instance \<Rightarrow> handler \<Rightarrow> py_exception + handler" where
  "make_top_layer (Instance RegularInstance m g e s a i) h = Inr (h\<lparr>top_layer := HttpProxy\<rparr>)"
| "make_top_layer (Instance UpstreamInstance m g e s a i) h = Inr (h\<lparr>top_layer := HttpUpstreamProxy\<rparr>)"
| "make_top_layer (Instance TransparentInstance m g e s a i) h = Inr (h\<lparr>top_layer := TransparentProxy\<rparr>)"
| "make_top_layer (Instance ReverseInstance m g e s a i) h = Inr (h\<lparr>top_layer := ReverseProxy\<rparr>)"
| "make_top_layer (Instance Socks5Instance m g e s a i) h = Inr (h\<lparr>top_layer := Socks5Proxy\<rparr>)"
| "make_top_layer (Instance DnsInstance m g e s a i) h =
     Inr (h\<lparr>server_address := PTuple [PStr (if data m = [] then ''resolve-local'' else data m), PInt 53],
            top_layer := DNSLayer\<rparr>)"
| "make_top_layer (Instance UdpInstance m g e s a None) h = Inl AttributeError"
| "make_top_layer (Instance UdpInstance m g e s a (Some inner)) h = make_top_layer inner h"

text \<open>
  \<open>struct.unpack_from("!H", data, 0)\<close>: the tuple with one element, the first two
  bytes as a big-endian unsigned integer; \<open>struct.error\<close> when fewer than two bytes
  are there.
\<close>

definition unpack_from_H :: "bytes \<Rightarrow> py_exception + pyval" where
  "unpack_from_H bs =
     (case bs of
        b0 # b1 # rest \<Rightarrow> Inr (PTuple [PInt (int (unat b0) * 256 + int (unat b1))])
      | _ \<Rightarrow> Inl StructError)"

text \<open>
  \<open>make_connection_id(self, data, remote_addr, local_addr)\<close>, called with the list of
  positional arguments given after \<open>self\<close>. Both implementations (and the abstract
  declaration) take three. The classes of the TCP family have no such method.
\<close>

definition make_connection_id ::
  "env \<Rightarrow> server_instance \<Rightarrow> pyval list \<Rightarrow> world \<Rightarrow> (py_exception + pyval) \<times> world" where
  "make_connection_id env self args w =
     (if \<not> is_udp_class (cls self) then (Inl AttributeError, w)
      else case bind_positional 3 args of
        Inl e \<Rightarrow> (Inl e, w)
      | Inr bound \<Rightarrow>
          (case bound of
             [d, remote_addr, local_addr] \<Rightarrow>
               if cls self = DnsInstance then
                 (case d of
                    PBytes bs \<Rightarrow>
                      (case unpack_from_H bs of
                         Inl StructError \<Rightarrow>
                           (Inr PNone,
                            log_info (''Invalid DNS datagram received from ''
                              @ format_address env remote_addr @ ''.'') w)
                       | Inl e \<Rightarrow> (Inl e, w)
                       | Inr dns_id \<Rightarrow> (Inr (PTuple [PStr ''udp'', dns_id, remote_addr, local_addr]), w))
                  | _ \<Rightarrow> (Inl TypeError, w))
               else (Inr (PTuple [PStr ''udp'', remote_addr, local_addr]), w)
           | _ \<Rightarrow> (Inl TypeError, w)))"

text \<open>\<open>reader.feed_data(data, remote_addr)\<close> on the reader of the handler object \<open>r\<close>.\<close>

definition feed_data :: "nat \<Rightarrow> bytes \<Rightarrow> address \<Rightarrow> world \<Rightarrow> world" where
  "feed_data r d remote_addr w =
     (case handlers w r of
        None \<Rightarrow> w
      | Some h \<Rightarrow> w\<lparr>handlers := (handlers w)(r \<mapsto> h\<lparr>reader_fed := reader_fed h @ [(d, remote_addr)]\<rparr>)\<rparr>)"

text \<open>
  \<open>handle_udp_datagram\<close> from the test \<open>connection_id not in self.manager.connections\<close>
  on (the lines after the early return), for a connection id already computed. The
  handler is built around a new, empty \<open>DatagramReader\<close>. The task created is
  \<open>handle_udp_connection(connection_id, handler)\<close>; it stays in \<open>tasks\<close> until the
  event loop runs it (it then registers through \<open>manager.register_connection\<close>, of
  which the module has the protocol declaration only).
\<close>

definition handle_udp_datagram_dispatch ::
  "env \<Rightarrow> server_instance \<Rightarrow> pyval \<Rightarrow> nat \<Rightarrow> bytes \<Rightarrow> address \<Rightarrow> address \<Rightarrow> world
     \<Rightarrow> (py_exception + unit) \<times> world" where
  "handle_udp_datagram_dispatch env self connection_id transport d remote_addr local_addr w =
     (case connections w (manager self) connection_id of
        None \<Rightarrow>
          let h0 = (new_handler env (mode self))\<lparr>reader_fed := []\<rparr>;
              h1 = h0\<lparr>client_transport_protocol := ''udp''\<rparr>;
              h2 = h1\<lparr>CONNECTION_TIMEOUT := 20\<rparr>;
              h3 = (if truthy (is_transparent self) then h2\<lparr>server_address := addr_val local_addr\<rparr> else h2);
              h4 = h3\<lparr>server_transport_protocol := ''udp''\<rparr>
          in (case make_top_layer self h4 of
                Inl e \<Rightarrow> (Inl e, w)
              | Inr h5 \<Rightarrow>
                  let r = next_handler w;
                      w1 = w\<lparr>handlers := (handlers w)(r \<mapsto> h5), next_handler := r + 1\<rparr>;
                      w2 = w1\<lparr>connections := (connections w1)
                              (manager self := (connections w1 (manager self))(connection_id \<mapsto> r))\<rparr>;
                      w3 = w2\<lparr>tasks := tasks w2 @ [(connection_id, r)]\<rparr>
                  in (Inr (), feed_data r d remote_addr w3))
      | Some r \<Rightarrow> (Inr (), feed_data r d remote_addr w))"

text \<open>
  \<open>handle_udp_datagram(self, transport, data, remote_addr, local_addr)\<close>. Its first
  statement is \<open>self.make_connection_id(transport, data, remote_addr, local_addr)\<close>:
  four positional arguments.
\<close>

definition handle_udp_datagram ::
  "env \<Rightarrow> server_instance \<Rightarrow> nat \<Rightarrow> bytes \<Rightarrow> address \<Rightarrow> address \<Rightarrow> world
     \<Rightarrow> (py_exception + unit) \<times> world" where
  "handle_udp_datagram env self transport d remote_addr local_addr w =
     (case make_connection_id env self
             [PTransport transport, PBytes d, addr_val remote_addr, addr_val local_addr] w of
        (Inl e, w1) \<Rightarrow> (Inl e, w1)
      | (Inr connection_id, w1) \<Rightarrow>
          if connection_id = PNone then (Inr (), w1)
          else handle_udp_datagram_dispatch env self connection_id transport d remote_addr local_addr w1)"

section \<open>mode\_servers: the registry and ServerInstance.make\<close>

text \<open>
  Modelled from the spec: the \<open>type\<close> tag of each mode class of \<open>mode_specs\<close> (not
  part of the sources at hand), as the mode string grammar lists them.
  \<open>__init_subclass__\<close> registers each concrete class under the tag of its mode.
\<close>

definition modes_registry :: "string \<rightharpoonup> instance_class" where
  "modes_registry =
     [''regular'' \<mapsto> RegularInstance, ''upstream'' \<mapsto> UpstreamInstance,
      ''transparent'' \<mapsto> TransparentInstance, ''reverse'' \<mapsto> ReverseInstance,
      ''socks5'' \<mapsto> Socks5Instance, ''dns'' \<mapsto> DnsInstance, ''udp'' \<mapsto> UdpInstance]"

text \<open>
  \<open>ServerInstance.make(mode, manager)\<close>, called with its list of positional arguments,
  and the call \<open>cls(mode, manager)\<close> it ends with (\<open>instantiate\<close>). Every class but
  \<open>UdpInstance\<close> inherits \<open>ServerInstance.__init__\<close>. \<open>UdpInstance.__init__\<close> runs
  \<open>super().__init__(mode.inner_mode, manager)\<close> and then
  \<open>ServerInstance.make(mode.inner_mode)\<close>: one positional argument. Arguments whose
  dynamic types are not those of the annotations are answered with \<open>TypeError\<close>.
\<close>

function ServerInstance_make :: "env \<Rightarrow> pyval list \<Rightarrow> py_exception + server_instance"
  and instantiate :: "env \<Rightarrow> instance_class \<Rightarrow> proxy_mode \<Rightarrow> nat \<Rightarrow> py_exception + server_instance"
where
  "ServerInstance_make env args =
     (case bind_positional 2 args of
        Inl e \<Rightarrow> Inl e
      | Inr bound \<Rightarrow>
          (case bound of
             [PStr spec, PManager g] \<Rightarrow>
               (case mode_parse env spec of
                  Inl e \<Rightarrow> Inl e
                | Inr m \<Rightarrow>
                    (case modes_registry (mode_type m) of
                       None \<Rightarrow> Inl KeyError
                     | Some c \<Rightarrow> instantiate env c m g))
           | [PMode m, PManager g] \<Rightarrow>
               (case modes_registry (mode_type m) of
                  None \<Rightarrow> Inl KeyError
                | Some c \<Rightarrow> instantiate env c m g)
           | _ \<Rightarrow> Inl TypeError))"
| "instantiate env c m g =
     (if c = UdpInstance then
        (case inner_mode m of
           None \<Rightarrow> Inl AttributeError
         | Some im \<Rightarrow>
             let self = ServerInstance_init UdpInstance im g
             in (case ServerInstance_make env [PMode im] of
                   Inl e \<Rightarrow> Inl e
                 | Inr inner \<Rightarrow> Inr (set_inner_server (Some inner) self)))
      else Inr (ServerInstance_init c m g))"
  by pat_completeness auto
termination
  by (relation "measure (\<lambda>x. case x of Inl (env, args) \<Rightarrow> (if length args = 2 then 2 else 0) | Inr r \<Rightarrow> 1)")
     (auto simp: bind_positional_def split: if_splits)

declare ServerInstance_make.simps [simp del]
declare instantiate.simps [simp del]

section \<open>netlib.http.url\<close>

text \<open>
  A URL is given as bytes or as text. The six components of a
  \<open>urllib.parse.ParseResult\<close> are a record; its properties \<open>hostname\<close> and \<open>port\<close>
  (\<open>get_hostname\<close> and \<open>get_port\<close>, computed from \<open>netloc\<close>; reading \<open>port\<close> may
  raise), \<open>urlparse\<close>, \<open>urlunparse\<close>, the
  two codecs and the validity checks of \<open>netlib.utils\<close> are taken from the
  environment.
\<close>

datatype url = UrlBytes string | UrlText string

record parse_result =
  scheme :: string
  netloc :: string
  path :: string
  params :: string
  query :: string
  fragment :: string

record url_env =
  urlparse :: "url \<Rightarrow> py_exception + parse_result"
  get_hostname :: "parse_result \<Rightarrow> string option"
  get_port :: "parse_result \<Rightarrow> py_exception + int option"
  urlunparse :: "string \<times> string \<times> string \<times> string \<times> string \<times> string \<Rightarrow> string"
  encode_idna :: "string \<Rightarrow> py_exception + string"
  encode_ascii :: "string \<Rightarrow> py_exception + string"
  is_valid_host :: "string \<Rightarrow> bool"
  is_valid_port :: "int \<Rightarrow> bool"

definition startswith :: "string \<Rightarrow> string \<Rightarrow> bool" where
  "startswith s p = (take (length p) s = p)"

text \<open>\<open>encode_parse_result(result, "ascii")\<close>: every component encoded, in order.\<close>

definition encode_parse_result :: "url_env \<Rightarrow> parse_result \<Rightarrow> py_exception + parse_result" where
  "encode_parse_result uenv r =
     (case encode_ascii uenv (scheme r) of Inl e \<Rightarrow> Inl e | Inr sc \<Rightarrow>
     (case encode_ascii uenv (netloc r) of Inl e \<Rightarrow> Inl e | Inr nl \<Rightarrow>
     (case encode_ascii uenv (path r) of Inl e \<Rightarrow> Inl e | Inr pa \<Rightarrow>
     (case encode_ascii uenv (params r) of Inl e \<Rightarrow> Inl e | Inr pm \<Rightarrow>
     (case encode_ascii uenv (query r) of Inl e \<Rightarrow> Inl e | Inr qu \<Rightarrow>
     (case encode_ascii uenv (fragment r) of Inl e \<Rightarrow> Inl e | Inr fr \<Rightarrow>
        Inr \<lparr>scheme = sc, netloc = nl, path = pa, params = pm, query = qu, fragment = fr\<rparr>))))))"

text \<open>
  The first half of \<open>parse\<close>, up to the assignment of \<open>port\<close>: the host and the
  parse result in bytes.
\<close>

definition parse_host :: "url_env \<Rightarrow> url \<Rightarrow> py_exception + string \<times> parse_result" where
  "parse_host uenv u =
     (case urlparse uenv u of
        Inl e \<Rightarrow> Inl e
      | Inr parsed \<Rightarrow>
          (case get_hostname uenv parsed of
             None \<Rightarrow> Inl (ValueError ''No hostname given'')
           | Some hn \<Rightarrow>
               if hn = [] then Inl (ValueError ''No hostname given'')
               else (case u of
                       UrlBytes b \<Rightarrow> Inr (hn, parsed)
                     | UrlText t \<Rightarrow>
                         (case encode_idna uenv hn of
                            Inl e \<Rightarrow> Inl e
                          | Inr host \<Rightarrow>
                              (case encode_parse_result uenv parsed of
                                 Inl e \<Rightarrow> Inl e
                               | Inr parsed' \<Rightarrow> Inr (host, parsed'))))))"

definition default_port :: "string \<Rightarrow> int" where
  "default_port sc = (if sc = ''https'' then 443 else 80)"

definition full_path_of :: "url_env \<Rightarrow> parse_result \<Rightarrow> string" where
  "full_path_of uenv parsed =
     (let full_path = urlunparse uenv ([], [], path parsed, params parsed, query parsed, fragment parsed)
      in if \<not> startswith full_path ''/'' then ''/'' @ full_path else full_path)"

definition parse :: "url_env \<Rightarrow> url \<Rightarrow> py_exception + string \<times> string \<times> int \<times> string" where
  "parse uenv u =
     (case parse_host uenv u of
        Inl e \<Rightarrow> Inl e
      | Inr (host, parsed) \<Rightarrow>
          (case get_port uenv parsed of
             Inl e \<Rightarrow> Inl e
           | Inr p0 \<Rightarrow>
               let p = (case p0 of
                          None \<Rightarrow> default_port (scheme parsed)
                        | Some q \<Rightarrow> if q = 0 then default_port (scheme parsed) else q);
                   full_path = full_path_of uenv parsed
               in if \<not> is_valid_host uenv host then Inl (ValueError ''Invalid Host'')
                  else if \<not> is_valid_port uenv p then Inl (ValueError ''Invalid Port'')
                  else Inr (scheme parsed, host, p, full_path)))"

section \<open>Concrete environments and inputs\<close>

definition mode_regular :: proxy_mode where
  "mode_regular = ProxyMode ''regular'' ''regular'' [] None None None"

definition mode_dns :: proxy_mode where
  "mode_dns = ProxyMode ''dns'' ''dns'' [] None None None"

definition mode_reverse :: proxy_mode where
  "mode_reverse = ProxyMode ''reverse'' ''reverse:tcp://host:9'' ''tcp://host:9'' None None None"

definition mode_udp :: proxy_mode where
  "mode_udp = ProxyMode ''udp'' ''udp:reverse:tcp://host:9'' ''reverse:tcp://host:9'' None None
     (Some mode_reverse)"

definition handler0 :: "proxy_mode \<Rightarrow> handler" where
  "handler0 m = \<lparr>handler_mode = m, client_transport_protocol = ''tcp'', CONNECTION_TIMEOUT = 600,
     server_address = PNone, server_transport_protocol = ''tcp'', top_layer = NoLayer,
     reader_fed = []\<rparr>"

definition env_ok :: env where
  "env_ok = \<lparr>
     mode_listen_host = (\<lambda>m. case custom_listen_host m of Some h \<Rightarrow> h | None \<Rightarrow> []),
     mode_listen_port = (\<lambda>m. case custom_listen_port m of Some p \<Rightarrow> p | None \<Rightarrow> 8080),
     asyncio_start_server = (\<lambda>h p. Inr \<lparr>sockets = [Socket (''127.0.0.1'', p)]\<rparr>),
     udp_start_server = (\<lambda>h p t. Inr \<lparr>sockets = [Socket (''127.0.0.1'', p)]\<rparr>),
     close_and_wait = (\<lambda>srv. None),
     EADDRINUSE = 98,
     exc_str = (\<lambda>e. case e of OSError n s f \<Rightarrow> s | _ \<Rightarrow> ''error''),
     obj_str = (\<lambda>v. ''object''),
     format_address = (\<lambda>a. ''address''),
     new_handler = handler0,
     mode_parse = (\<lambda>s. Inl (ValueError ''invalid mode''))\<rparr>"

definition err_in_use :: py_exception where
  "err_in_use = OSError (Some 98) ''Address already in use'' None"

definition err_denied :: py_exception where
  "err_denied = OSError (Some 13) ''Permission denied'' None"

definition err_close :: py_exception where
  "err_close = OSError (Some 9) ''Bad file descriptor'' None"

definition env_in_use :: env where
  "env_in_use = env_ok\<lparr>asyncio_start_server := (\<lambda>h p. Inl err_in_use)\<rparr>"

definition env_denied :: env where
  "env_denied = env_ok\<lparr>asyncio_start_server := (\<lambda>h p. Inl err_denied)\<rparr>"

definition env_close_fails :: env where
  "env_close_fails = env_ok\<lparr>close_and_wait := (\<lambda>srv. Some err_close)\<rparr>"

definition world0 :: world where
  "world0 = \<lparr>log = [], connections = (\<lambda>g. Map.empty), handlers = Map.empty, next_handler = 0,
     tasks = []\<rparr>"

definition regular0 :: server_instance where
  "regular0 = ServerInstance_init RegularInstance mode_regular 0"

definition server0 :: server where
  "server0 = \<lparr>sockets = [Socket (''127.0.0.1'', 8080)]\<rparr>"

definition regular_running :: server_instance where
  "regular_running = Instance RegularInstance mode_regular 0 None (Some server0) [(''127.0.0.1'', 8080)] None"

definition dns0 :: server_instance where
  "dns0 = ServerInstance_init DnsInstance mode_dns 0"

definition peer0 :: address where
  "peer0 = (''192.0.2.7'', 5353)"

definition local0 :: address where
  "local0 = (''127.0.0.1'', 53)"

definition datagram_1234 :: bytes where
  "datagram_1234 = [0x12, 0x34, 1, 0, 0, 1, 0, 0, 0, 0, 0, 0]"

definition datagram_5678 :: bytes where
  "datagram_5678 = [0x56, 0x78, 1, 0, 0, 1, 0, 0, 0, 0, 0, 0]"

definition datagram_short :: bytes where
  "datagram_short = [0x12]"

definition uenv0 :: url_env where
  "uenv0 = \<lparr>
     urlparse = (\<lambda>u. case u of
        UrlBytes b \<Rightarrow>
          if b = ''https://example.com'' then
            Inr \<lparr>scheme = ''https'', netloc = ''example.com'', path = [], params = [], query = [], fragment = []\<rparr>
          else if b = ''http://example.com:70000/a'' then
            Inr \<lparr>scheme = ''http'', netloc = ''example.com:70000'', path = ''/a'', params = [], query = [], fragment = []\<rparr>
          else if b = ''http://example.com:99999/'' then
            Inr \<lparr>scheme = ''http'', netloc = ''example.com:99999'', path = ''/'', params = [], query = [], fragment = []\<rparr>
          else if b = ''http://bad_host/'' then
            Inr \<lparr>scheme = ''http'', netloc = ''bad_host'', path = ''/'', params = [], query = [], fragment = []\<rparr>
          else Inr \<lparr>scheme = [], netloc = [], path = b, params = [], query = [], fragment = []\<rparr>
      | UrlText t \<Rightarrow> Inl (ValueError ''unsupported'')),
     get_hostname = (\<lambda>r. if netloc r = [] then None else Some (takeWhile (\<lambda>c. c \<noteq> CHR '':'') (netloc r))),
     get_port = (\<lambda>r. if netloc r = ''example.com:70000'' then Inr (Some 70000)
                     else if netloc r = ''example.com:99999'' then Inl (ValueError ''Port out of range 0-65535'')
                     else Inr None),
     urlunparse = (\<lambda>(sc, nl, pa, pm, qu, fr). pa),
     encode_idna = (\<lambda>s. Inr s),
     encode_ascii = (\<lambda>s. Inr s),
     is_valid_host = (\<lambda>h. h \<noteq> ''bad_host''),
     is_valid_port = (\<lambda>p. 0 \<le> p \<and> p \<le> 65535)\<rparr>"

section \<open>Lifecycle of a server instance\<close>

subsection \<open>Attribute updates\<close>

lemma private_server_set [simp]:
  "private_server (set_server x s) = x"
  "private_server (set_listen_addrs a s) = private_server s"
  "private_server (set_last_exception e s) = private_server s"
  by (cases s; simp)+

lemma private_listen_addrs_set [simp]:
  "private_listen_addrs (set_server x s) = private_listen_addrs s"
  "private_listen_addrs (set_listen_addrs a s) = a"
  "private_listen_addrs (set_last_exception e s) = private_listen_addrs s"
  by (cases s; simp)+

lemma last_exception_set [simp]:
  "last_exception (set_server x s) = last_exception s"
  "last_exception (set_listen_addrs a s) = last_exception s"
  "last_exception (set_last_exception e s) = e"
  by (cases s; simp)+

lemma mode_set [simp]:
  "mode (set_server x s) = mode s"
  "mode (set_listen_addrs a s) = mode s"
  "mode (set_last_exception e s) = mode s"
  by (cases s; simp)+

lemma cls_set [simp]:
  "cls (set_server x s) = cls s"
  "cls (set_listen_addrs a s) = cls s"
  "cls (set_last_exception e s) = cls s"
  by (cases s; simp)+

subsection \<open>What start and stop do to the object\<close>

lemma listen_sockets:
  "sockets_ok env \<Longrightarrow> listen env s h p = Inr srv \<Longrightarrow> sockets srv \<noteq> []"
  by (auto simp: sockets_ok_def listen_def split: if_splits)

lemma start_running:
  "private_server s \<noteq> None \<Longrightarrow> start env s w = (Inl AssertionError, s, w)"
  by (simp add: start_def)

lemma start_ok:
  "private_server s = None \<Longrightarrow>
   listen env s (mode_listen_host env (mode s)) (mode_listen_port env (mode s)) = Inr srv \<Longrightarrow>
   fst (start env s w) = Inr () \<and>
   fst (snd (start env s w)) =
     set_last_exception None (set_listen_addrs (map getsockname (sockets srv)) (set_server (Some srv) s))"
  by (simp add: start_def Let_def)

lemma start_fail:
  "private_server s = None \<Longrightarrow>
   listen env s (mode_listen_host env (mode s)) (mode_listen_port env (mode s)) = Inl e \<Longrightarrow>
   (\<exists>e'. fst (start env s w) = Inl e') \<and>
   fst (snd (start env s w)) = set_last_exception (Some e) s \<and> snd (snd (start env s w)) = w"
  by (cases e) (simp_all add: start_def Let_def)

lemma start_inv:
  assumes "sockets_ok env" "private_listen_addrs s = [] \<longleftrightarrow> private_server s = None"
  shows "private_listen_addrs (fst (snd (start env s w))) = [] \<longleftrightarrow> private_server (fst (snd (start env s w))) = None"
proof (cases "private_server s = None")
  case False
  then show ?thesis using assms by (simp add: start_running)
next
  case True
  show ?thesis
  proof (cases "listen env s (mode_listen_host env (mode s)) (mode_listen_port env (mode s))")
    case (Inl e)
    from start_fail [OF True Inl] assms True show ?thesis by simp
  next
    case (Inr srv)
    from start_ok [OF True Inr] listen_sockets [OF assms(1) Inr] show ?thesis by simp
  qed
qed

lemma stop_post:
  "private_server s \<noteq> None \<Longrightarrow>
   private_server (fst (snd (stop env s w))) = None \<and> private_listen_addrs (fst (snd (stop env s w))) = []"
  by (auto simp: stop_def Let_def split: option.splits)

lemma stop_not_running:
  "private_server s = None \<Longrightarrow> stop env s w = (Inl AssertionError, s, w)"
  by (simp add: stop_def)

lemma reachable_inv:
  "reachable s \<Longrightarrow> (private_listen_addrs s = [] \<longleftrightarrow> private_server s = None)"
proof (induction rule: reachable.induct)
  case (reach_init c m g)
  show ?case by (simp add: ServerInstance_init_def)
next
  case (reach_start s env w)
  then show ?case by (simp add: start_inv)
next
  case (reach_stop s env w)
  show ?case
  proof (cases "private_server s = None")
    case True
    with reach_stop.IH show ?thesis by (simp add: stop_not_running)
  next
    case False
    from stop_post [OF False] show ?thesis by simp
  qed
qed

text \<open>
  Claim C1. In every state an instance object can reach, \<open>listen_addrs\<close> is empty
  exactly when the instance is not running (the code has no state field: running means
  that \<open>_server\<close> is set, which is what \<open>is_running\<close> returns). After a
  \<open>start\<close> that returns normally \<open>listen_addrs\<close> is non-empty and \<open>is_running\<close>
  is true; after \<open>stop\<close>, whatever its outcome, \<open>listen_addrs\<close> is empty and
  \<open>is_running\<close> is false.
\<close>

theorem listen_addrs_iff_running:
  assumes "reachable s"
  shows "(listen_addrs s = [] \<longleftrightarrow> \<not> is_running s)
    \<and> (\<forall>env w s' w'. sockets_ok env \<longrightarrow> start env s w = (Inr (), s', w')
          \<longrightarrow> listen_addrs s' \<noteq> [] \<and> is_running s')
    \<and> (\<forall>env w r s' w'. stop env s w = (r, s', w') \<longrightarrow> listen_addrs s' = [] \<and> \<not> is_running s')"
proof (intro conjI allI impI)
  show "listen_addrs s = [] \<longleftrightarrow> \<not> is_running s"
    using reachable_inv [OF assms] by (simp add: listen_addrs_def is_running_def)
next
  fix env w s' w'
  assume ok: "sockets_ok env" and st: "start env s w = (Inr (), s', w')"
  have r: "reachable s'" using reach_start [OF assms ok, of w] st by simp
  have nr: "private_server s = None"
  proof (rule ccontr)
    assume "private_server s \<noteq> None"
    from start_running [OF this, of env w] st show False by simp
  qed
  have "\<exists>srv. listen env s (mode_listen_host env (mode s)) (mode_listen_port env (mode s)) = Inr srv"
  proof (cases "listen env s (mode_listen_host env (mode s)) (mode_listen_port env (mode s))")
    case (Inl e)
    from start_fail [OF nr Inl, of w] st show ?thesis by auto
  next
    case (Inr srv)
    then show ?thesis by blast
  qed
  then obtain srv where l: "listen env s (mode_listen_host env (mode s)) (mode_listen_port env (mode s)) = Inr srv" ..
  from start_ok [OF nr l, of w] st have "private_server s' = Some srv" by simp
  then show "is_running s'" by (simp add: is_running_def)
  with reachable_inv [OF r] show "listen_addrs s' \<noteq> []"
    by (simp add: listen_addrs_def is_running_def)
next
  fix env w r s' w'
  assume st: "stop env s w = (r, s', w')"
  have r: "reachable s'" using reach_stop [OF assms, of env w] st by simp
  have "private_server s' = None"
  proof (cases "private_server s = None")
    case True
    from stop_not_running [OF True, of env w] st True show ?thesis by simp
  next
    case False
    from stop_post [OF False, of env w] st show ?thesis by simp
  qed
  then show "\<not> is_running s'" by (simp add: is_running_def)
  with reachable_inv [OF r] show "listen_addrs s' = []"
    by (simp add: listen_addrs_def is_running_def)
qed


subsection \<open>Concrete runs\<close>

lemma log_desc_set [simp]:
  "log_desc (set_server x s) = log_desc s"
  "log_desc (set_listen_addrs a s) = log_desc s"
  "log_desc (set_last_exception e s) = log_desc s"
  by (cases s; cases "cls s"; simp)+

lemma str_int_8080: "str_int 8080 = ''8080''"
  by (simp add: str_int_def str_nat.simps [of 8080] str_nat.simps [of 808] str_nat.simps [of 80]
      str_nat.simps [of 8] digit_char_def)

lemma str_int_8081: "str_int 8081 = ''8081''"
  by (simp add: str_int_def str_nat.simps [of 8081] str_nat.simps [of 808] str_nat.simps [of 80]
      str_nat.simps [of 8] digit_char_def)

lemma reachable_regular0: "reachable regular0"
  unfolding regular0_def by (rule reach_init)

lemma sockets_ok_env_ok: "sockets_ok env_ok"
  by (auto simp: sockets_ok_def env_ok_def)

lemma start_env_ok_regular0:
  "fst (start env_ok regular0 world0) = Inr ()"
  "fst (snd (start env_ok regular0 world0)) = regular_running"
  by (simp_all add: start_def listen_def is_udp_class_def env_ok_def regular0_def
      ServerInstance_init_def mode_regular_def regular_running_def server0_def Let_def)

lemma reachable_regular_running: "reachable regular_running"
  using reach_start [OF reachable_regular0 sockets_ok_env_ok, of world0]
  by (simp add: start_env_ok_regular0)

text \<open>
  The invariant at a fresh regular instance, after starting it, and after stopping the
  started instance.
\<close>

theorem listen_addrs_iff_running_witness:
  "reachable regular0 \<and> listen_addrs regular0 = [] \<and> \<not> is_running regular0
   \<and> sockets_ok env_ok \<and> fst (start env_ok regular0 world0) = Inr ()
   \<and> listen_addrs (fst (snd (start env_ok regular0 world0))) \<noteq> []
   \<and> is_running (fst (snd (start env_ok regular0 world0)))
   \<and> reachable regular_running
   \<and> listen_addrs (fst (snd (stop env_ok regular_running world0))) = []
   \<and> \<not> is_running (fst (snd (stop env_ok regular_running world0)))"
proof -
  have a: "listen_addrs regular0 = [] \<and> \<not> is_running regular0"
    using listen_addrs_iff_running [OF reachable_regular0]
    by (simp add: is_running_def regular0_def ServerInstance_init_def)
  have b: "listen_addrs (fst (snd (start env_ok regular0 world0))) \<noteq> []
      \<and> is_running (fst (snd (start env_ok regular0 world0)))"
    using listen_addrs_iff_running [OF reachable_regular0] sockets_ok_env_ok
      start_env_ok_regular0(1)
    by (metis prod.collapse)
  have c: "listen_addrs (fst (snd (stop env_ok regular_running world0))) = []
      \<and> \<not> is_running (fst (snd (stop env_ok regular_running world0)))"
    using listen_addrs_iff_running [OF reachable_regular_running]
    by (metis prod.collapse)
  from a b c reachable_regular0 reachable_regular_running sockets_ok_env_ok start_env_ok_regular0(1)
  show ?thesis by simp
qed

subsection \<open>Misuse and restart\<close>

lemma start_after_failure:
  assumes "private_server s = None" and "start env s w = (Inl e, s1, w1)"
  shows "private_server s1 = None"
proof (cases "listen env s (mode_listen_host env (mode s)) (mode_listen_port env (mode s))")
  case (Inl e')
  from start_fail [OF assms(1) Inl, of w] assms show ?thesis by simp
next
  case (Inr srv)
  from start_ok [OF assms(1) Inr, of w] assms(2) show ?thesis by simp
qed

text \<open>
  Claim C2. \<open>start\<close> on a running instance raises the assertion error of
  \<open>assert self._server is None\<close> and changes nothing (the spec's AlreadyRunning);
  \<open>stop\<close> on an instance that is not running raises the assertion error of
  \<open>assert self._server is not None\<close> and changes nothing (the spec's NotRunning);
  after a \<open>start\<close> that failed in \<open>listen\<close> the instance is still not running, and
  a further \<open>start\<close> for which \<open>listen\<close> returns a server returns normally and
  leaves the instance running.
\<close>

theorem start_stop_misuse:
  "(is_running s \<longrightarrow> start env s w = (Inl AssertionError, s, w))
   \<and> (\<not> is_running s \<longrightarrow> stop env s w = (Inl AssertionError, s, w))
   \<and> (\<not> is_running s \<and> start env s w = (Inl e, s1, w1) \<longrightarrow>
        \<not> is_running s1
        \<and> (\<forall>env2 srv.
              listen env2 s1 (mode_listen_host env2 (mode s1)) (mode_listen_port env2 (mode s1)) = Inr srv
              \<longrightarrow> fst (start env2 s1 w1) = Inr () \<and> is_running (fst (snd (start env2 s1 w1)))))"
proof (intro conjI impI allI)
  assume "is_running s"
  then show "start env s w = (Inl AssertionError, s, w)"
    by (simp add: is_running_def start_running)
next
  assume "\<not> is_running s"
  then show "stop env s w = (Inl AssertionError, s, w)"
    by (simp add: is_running_def stop_not_running)
next
  assume a: "\<not> is_running s \<and> start env s w = (Inl e, s1, w1)"
  then have n: "private_server s1 = None"
    using start_after_failure [of s env w e s1 w1] by (simp add: is_running_def)
  then show "\<not> is_running s1" by (simp add: is_running_def)
  fix env2 srv
  assume l: "listen env2 s1 (mode_listen_host env2 (mode s1)) (mode_listen_port env2 (mode s1)) = Inr srv"
  from start_ok [OF n l, of w1]
  show "fst (start env2 s1 w1) = Inr ()" and "is_running (fst (snd (start env2 s1 w1)))"
    by (simp_all add: is_running_def)
qed

lemma start_env_in_use_regular0:
  "start env_in_use regular0 world0 =
     (Inl (OSError (Some 98)
            (''HTTP(S) proxy failed to listen on *:8080 with Address already in use''
              @ [CHR 0x0A] @ ''Try specifying a different port by using `--mode regular@8081`.'') None),
      set_last_exception (Some err_in_use) regular0, world0)"
  by (simp add: start_def listen_def is_udp_class_def env_in_use_def env_ok_def regular0_def
      ServerInstance_init_def mode_regular_def err_in_use_def Let_def listen_failure_message_def
      port_suggestion_def fmt_def str_int_8080 str_int_8081)

lemma start_env_denied_regular0:
  "start env_denied regular0 world0 =
     (Inl (OSError (Some 13) ''HTTP(S) proxy failed to listen on *:8080 with Permission denied'' None),
      set_last_exception (Some err_denied) regular0, world0)"
  by (simp add: start_def listen_def is_udp_class_def env_denied_def env_ok_def regular0_def
      ServerInstance_init_def mode_regular_def err_denied_def Let_def listen_failure_message_def
      fmt_def str_int_8080)

lemma listen_env_ok:
  "listen env_ok s h p = Inr \<lparr>sockets = [Socket (''127.0.0.1'', p)]\<rparr>"
  by (simp add: listen_def env_ok_def)

text \<open>
  The three cases on concrete objects: a second \<open>start\<close>, a \<open>stop\<close> before any
  \<open>start\<close>, and a \<open>start\<close> that succeeds after one that found the port in use.
\<close>

theorem start_stop_misuse_witness:
  "is_running regular_running
   \<and> start env_ok regular_running world0 = (Inl AssertionError, regular_running, world0)
   \<and> \<not> is_running regular0
   \<and> stop env_ok regular0 world0 = (Inl AssertionError, regular0, world0)
   \<and> fst (start env_in_use regular0 world0) \<noteq> Inr ()
   \<and> \<not> is_running (fst (snd (start env_in_use regular0 world0)))
   \<and> fst (start env_ok (fst (snd (start env_in_use regular0 world0))) world0) = Inr ()
   \<and> is_running (fst (snd (start env_ok (fst (snd (start env_in_use regular0 world0))) world0)))"
proof -
  have r: "is_running regular_running"
    by (simp add: is_running_def regular_running_def)
  have n: "\<not> is_running regular0"
    by (simp add: is_running_def regular0_def ServerInstance_init_def)
  note t1 = start_stop_misuse [of regular_running env_ok world0]
  note t2 = start_stop_misuse [of regular0 env_ok world0]
  note t3 = start_stop_misuse [of regular0 env_in_use world0 _ "set_last_exception (Some err_in_use) regular0" world0]
  have a: "start env_ok regular_running world0 = (Inl AssertionError, regular_running, world0)"
    using t1 r by blast
  have b: "stop env_ok regular0 world0 = (Inl AssertionError, regular0, world0)"
    using t2 n by blast
  have c: "\<not> is_running (set_last_exception (Some err_in_use) regular0)
     \<and> fst (start env_ok (set_last_exception (Some err_in_use) regular0) world0) = Inr ()
     \<and> is_running (fst (snd (start env_ok (set_last_exception (Some err_in_use) regular0) world0)))"
    using t3 n start_env_in_use_regular0 listen_env_ok by blast
  from r n a b c show ?thesis by (simp add: start_env_in_use_regular0)
qed

subsection \<open>A failing listen\<close>

lemma port_suggestion_sublist:
  "sublist (''@'' @ str_int (port + 1)) (msg @ port_suggestion m port)"
proof -
  have "msg @ port_suggestion m port =
      (msg @ [CHR 0x0A] @ ''Try specifying a different port by using `--mode '' @ full_spec m)
        @ (''@'' @ str_int (port + 1)) @ ''`.''"
    by (simp add: port_suggestion_def)
  then show ?thesis
    unfolding sublist_def by blast
qed

lemma failure_message_suffix:
  "suffix (exc_str env e) (listen_failure_message env s host port e)"
  unfolding listen_failure_message_def suffix_def by (metis append.assoc)

text \<open>
  Claim C3, as the code has it. Let \<open>start\<close> run on an instance that is not running
  and let \<open>listen\<close> raise \<open>e\<close>. In every case \<open>last_exception\<close> becomes \<open>e\<close>, the
  original error, and nothing else of the object changes. If \<open>e\<close> is an \<open>OSError\<close>,
  the caller gets a new \<open>OSError\<close> with the errno and filename of \<open>e\<close> and the message
  \<open><log_desc> failed to listen on <host or *>:<port> with <str(e)>\<close>; when the errno is
  \<open>EADDRINUSE\<close> and the mode has no custom port (and, as the mode grammar implies, no
  custom host) the suggestion is appended, so that the message contains \<open>@\<close> followed
  by the decimal \<open>port + 1\<close>; for any other \<open>OSError\<close> nothing is appended. An
  exception that is not an \<open>OSError\<close> is re-raised as it is.
\<close>

theorem start_listen_failure:
  assumes "\<not> is_running s"
    and "host = mode_listen_host env (mode s)"
    and "port = mode_listen_port env (mode s)"
    and "listen env s host port = Inl e"
  shows "(\<forall>errno strerror filename. e = OSError errno strerror filename \<longrightarrow>
            (errno = Some (EADDRINUSE env) \<and> custom_listen_port (mode s) = None
               \<and> custom_listen_host (mode s) = None \<longrightarrow>
               start env s w =
                 (Inl (OSError errno (listen_failure_message env s host port e
                                        @ port_suggestion (mode s) port) filename),
                  set_last_exception (Some e) s, w)
               \<and> sublist (''@'' @ str_int (port + 1))
                    (listen_failure_message env s host port e @ port_suggestion (mode s) port))
            \<and> (\<not> (errno = Some (EADDRINUSE env) \<and> custom_listen_port (mode s) = None) \<longrightarrow>
               start env s w =
                 (Inl (OSError errno (listen_failure_message env s host port e) filename),
                  set_last_exception (Some e) s, w)
               \<and> suffix (exc_str env e) (listen_failure_message env s host port e)))
     \<and> ((\<forall>errno strerror filename. e \<noteq> OSError errno strerror filename) \<longrightarrow>
            start env s w = (Inl e, set_last_exception (Some e) s, w))"
proof -
  have n: "private_server s = None" using assms(1) by (simp add: is_running_def)
  have m: "listen_failure_message env (set_last_exception (Some e) s) host port e
      = listen_failure_message env s host port e"
    by (simp add: listen_failure_message_def)
  show ?thesis
  proof (cases e)
    case (OSError errno strerror filename)
    show ?thesis
    proof (cases "errno = Some (EADDRINUSE env) \<and> custom_listen_port (mode s) = None")
      case True
      have "start env s w =
          (Inl (OSError errno (listen_failure_message env s host port e
                                 @ port_suggestion (mode s) port) filename),
           set_last_exception (Some e) s, w)"
        if "custom_listen_host (mode s) = None"
        using that True n assms(2-4) m OSError by (simp add: start_def Let_def)
      with True OSError
        port_suggestion_sublist [of port "listen_failure_message env s host port e" "mode s"]
      show ?thesis by simp
    next
      case False
      have "start env s w =
          (Inl (OSError errno (listen_failure_message env s host port e) filename),
           set_last_exception (Some e) s, w)"
        using False n assms(2-4) m OSError by (auto simp: start_def Let_def)
      with False OSError show ?thesis
        by (auto simp: failure_message_suffix)
    qed
  qed (use n assms(2-4) in \<open>simp_all add: start_def Let_def\<close>)
qed

text \<open>
  The claim as stated fails where it says that the original error is surfaced: on a bind
  error other than address-in-use (here permission denied, errno 13) the error that
  reaches the caller is not the one \<open>listen\<close> raised but a new one with another message.
\<close>

theorem start_other_bind_error_counterexample:
  "listen env_denied regular0 (mode_listen_host env_denied (mode regular0))
       (mode_listen_port env_denied (mode regular0)) = Inl err_denied
   \<and> fst (start env_denied regular0 world0) =
       Inl (OSError (Some 13) ''HTTP(S) proxy failed to listen on *:8080 with Permission denied'' None)
   \<and> fst (start env_denied regular0 world0) \<noteq> Inl err_denied"
proof -
  have "listen env_denied regular0 (mode_listen_host env_denied (mode regular0))
       (mode_listen_port env_denied (mode regular0)) = Inl err_denied"
    by (simp add: listen_def is_udp_class_def env_denied_def env_ok_def regular0_def
        ServerInstance_init_def)
  then show ?thesis
    by (simp add: start_env_denied_regular0 err_denied_def)
qed

text \<open>
  Both kinds of bind error on a fresh regular instance with port 8080: address in use
  (the message ends with the suggestion of port 8081) and permission denied.
\<close>

theorem start_listen_failure_witness:
  "\<not> is_running regular0
   \<and> listen env_in_use regular0 [] 8080 = Inl err_in_use
   \<and> start env_in_use regular0 world0 =
       (Inl (OSError (Some 98)
              (''HTTP(S) proxy failed to listen on *:8080 with Address already in use''
                @ [CHR 0x0A] @ ''Try specifying a different port by using `--mode regular@8081`.'') None),
        set_last_exception (Some err_in_use) regular0, world0)
   \<and> sublist ''@8081''
        (''HTTP(S) proxy failed to listen on *:8080 with Address already in use''
          @ [CHR 0x0A] @ ''Try specifying a different port by using `--mode regular@8081`.'')
   \<and> listen env_denied regular0 [] 8080 = Inl err_denied
   \<and> start env_denied regular0 world0 =
       (Inl (OSError (Some 13) ''HTTP(S) proxy failed to listen on *:8080 with Permission denied'' None),
        set_last_exception (Some err_denied) regular0, world0)
   \<and> last_exception (fst (snd (start env_denied regular0 world0))) = Some err_denied"
proof -
  have n: "\<not> is_running regular0"
    by (simp add: is_running_def regular0_def ServerInstance_init_def)
  have h1: "[] = mode_listen_host env_in_use (mode regular0)"
    and p1: "8080 = mode_listen_port env_in_use (mode regular0)"
    and l1: "listen env_in_use regular0 [] 8080 = Inl err_in_use"
    by (simp_all add: listen_def is_udp_class_def env_in_use_def env_ok_def regular0_def
        ServerInstance_init_def mode_regular_def)
  have h2: "[] = mode_listen_host env_denied (mode regular0)"
    and p2: "8080 = mode_listen_port env_denied (mode regular0)"
    and l2: "listen env_denied regular0 [] 8080 = Inl err_denied"
    by (simp_all add: listen_def is_udp_class_def env_denied_def env_ok_def regular0_def
        ServerInstance_init_def mode_regular_def)
  have msg1: "listen_failure_message env_in_use regular0 [] 8080 err_in_use
      = ''HTTP(S) proxy failed to listen on *:8080 with Address already in use''"
    by (simp add: listen_failure_message_def fmt_def regular0_def ServerInstance_init_def
        env_in_use_def env_ok_def err_in_use_def str_int_8080)
  have sug: "port_suggestion (mode regular0) 8080
      = [CHR 0x0A] @ ''Try specifying a different port by using `--mode regular@8081`.''"
    by (simp add: port_suggestion_def regular0_def ServerInstance_init_def mode_regular_def
        str_int_8081)
  have c1: "errno = Some (EADDRINUSE env_in_use) \<and> custom_listen_port (mode regular0) = None
      \<and> custom_listen_host (mode regular0) = None" if "errno = Some 98" for errno
    using that by (simp add: env_in_use_def env_ok_def regular0_def ServerInstance_init_def
        mode_regular_def)
  from start_listen_failure [OF n h1 p1 l1, of world0] c1 [of "Some 98"]
  have a: "start env_in_use regular0 world0 =
       (Inl (OSError (Some 98) (listen_failure_message env_in_use regular0 [] 8080 err_in_use
                                  @ port_suggestion (mode regular0) 8080) None),
        set_last_exception (Some err_in_use) regular0, world0)
     \<and> sublist (''@'' @ str_int (8080 + 1))
          (listen_failure_message env_in_use regular0 [] 8080 err_in_use
             @ port_suggestion (mode regular0) 8080)"
    by (simp add: err_in_use_def)
  have c2: "\<not> (Some 13 = Some (EADDRINUSE env_denied) \<and> custom_listen_port (mode regular0) = None)"
    by (simp add: env_denied_def env_ok_def)
  from start_listen_failure [OF n h2 p2 l2, of world0] c2
  have b: "start env_denied regular0 world0 =
       (Inl (OSError (Some 13) (listen_failure_message env_denied regular0 [] 8080 err_denied) None),
        set_last_exception (Some err_denied) regular0, world0)"
    by (simp add: err_denied_def)
  from a have a': "sublist ''@8081''
        (''HTTP(S) proxy failed to listen on *:8080 with Address already in use''
          @ [CHR 0x0A] @ ''Try specifying a different port by using `--mode regular@8081`.'')"
    by (simp add: msg1 sug str_int_8081)
  from n l1 l2 a a' b show ?thesis
    by (simp add: start_env_in_use_regular0 start_env_denied_regular0)
qed

subsection \<open>Stopping\<close>

text \<open>
  Claim C4. When \<open>stop\<close> runs on a running instance, the object it leaves is the
  original one with \<open>_server\<close> and \<open>_listen_addrs\<close> cleared and \<open>last_exception\<close>
  set to what closing raised (to \<open>None\<close> if it raised nothing): the outcome of closing
  has no other influence. So the instance is not running and has no addresses even
  when closing raises \<open>e\<close>; then \<open>e\<close> is raised to the caller and stored in
  \<open>last_exception\<close>. A \<open>start\<close> on the instance so left passes its assertion, and
  returns normally with the instance running whenever \<open>listen\<close> returns a server.
\<close>

theorem stop_clears_before_close:
  assumes "private_server s = Some srv"
  shows "fst (snd (stop env s w)) =
           set_last_exception (close_and_wait env srv) (set_listen_addrs [] (set_server None s))
     \<and> \<not> is_running (fst (snd (stop env s w)))
     \<and> listen_addrs (fst (snd (stop env s w))) = []
     \<and> (\<forall>e. close_and_wait env srv = Some e \<longrightarrow>
           fst (stop env s w) = Inl e \<and> last_exception (fst (snd (stop env s w))) = Some e)
     \<and> (\<forall>env2 w2 srv2.
           listen env2 (fst (snd (stop env s w)))
             (mode_listen_host env2 (mode (fst (snd (stop env s w)))))
             (mode_listen_port env2 (mode (fst (snd (stop env s w))))) = Inr srv2
           \<longrightarrow> fst (start env2 (fst (snd (stop env s w))) w2) = Inr ()
               \<and> is_running (fst (snd (start env2 (fst (snd (stop env s w))) w2))))"
proof -
  let ?s' = "fst (snd (stop env s w))"
  have eq: "?s' = set_last_exception (close_and_wait env srv) (set_listen_addrs [] (set_server None s))"
    using assms by (simp add: stop_def Let_def split: option.splits)
  have n: "private_server ?s' = None"
    by (simp add: eq)
  have a: "private_listen_addrs ?s' = []"
    by (simp add: eq)
  have r: "fst (stop env s w) = Inl e \<and> last_exception ?s' = Some e"
    if "close_and_wait env srv = Some e" for e
    using that assms by (simp add: stop_def Let_def)
  have st: "fst (start env2 ?s' w2) = Inr () \<and> is_running (fst (snd (start env2 ?s' w2)))"
    if "listen env2 ?s' (mode_listen_host env2 (mode ?s')) (mode_listen_port env2 (mode ?s')) = Inr srv2"
    for env2 w2 srv2
    using start_ok [OF n that, of w2] by (simp add: is_running_def)
  from eq n a r st show ?thesis
    by (simp add: is_running_def listen_addrs_def)
qed

text \<open>
  A running regular instance whose server fails to close, stopped and started again.
\<close>

theorem stop_clears_before_close_witness:
  "private_server regular_running = Some server0
   \<and> close_and_wait env_close_fails server0 = Some err_close
   \<and> fst (stop env_close_fails regular_running world0) = Inl err_close
   \<and> last_exception (fst (snd (stop env_close_fails regular_running world0))) = Some err_close
   \<and> \<not> is_running (fst (snd (stop env_close_fails regular_running world0)))
   \<and> listen_addrs (fst (snd (stop env_close_fails regular_running world0))) = []
   \<and> fst (start env_ok (fst (snd (stop env_close_fails regular_running world0))) world0) = Inr ()
   \<and> is_running (fst (snd (start env_ok (fst (snd (stop env_close_fails regular_running world0))) world0)))"
proof -
  have p: "private_server regular_running = Some server0"
    by (simp add: regular_running_def)
  have c: "close_and_wait env_close_fails server0 = Some err_close"
    by (simp add: env_close_fails_def)
  note t = stop_clears_before_close [OF p, of env_close_fails world0]
  let ?s' = "fst (snd (stop env_close_fails regular_running world0))"
  from t have a: "\<not> is_running ?s'" and b: "listen_addrs ?s' = []"
    by blast+
  from t c have d: "fst (stop env_close_fails regular_running world0) = Inl err_close"
    and e: "last_exception ?s' = Some err_close"
    by blast+
  from t listen_env_ok have f: "fst (start env_ok ?s' world0) = Inr ()"
    and g: "is_running (fst (snd (start env_ok ?s' world0)))"
    by blast+
  from p c a b d e f g show ?thesis by blast
qed

section \<open>Datagrams\<close>

lemma handle_udp_datagram_raises:
  "is_udp_class (cls self) \<Longrightarrow>
   handle_udp_datagram env self transport d remote_addr local_addr w = (Inl TypeError, w)"
  by (simp add: handle_udp_datagram_def make_connection_id_def bind_positional_def)

lemma dns0_udp: "is_udp_class (cls dns0)"
  by (simp add: dns0_def ServerInstance_init_def is_udp_class_def)

lemma unpack_datagram_1234: "unpack_from_H datagram_1234 = Inr (PTuple [PInt 0x1234])"
  by (simp add: unpack_from_H_def datagram_1234_def)

lemma make_connection_id_dns:
  "make_connection_id env dns0 [PBytes bs, remote_addr, local_addr] w =
     (case unpack_from_H bs of
        Inl e \<Rightarrow> (Inr PNone,
                  log_info (''Invalid DNS datagram received from '' @ format_address env remote_addr @ ''.'') w)
      | Inr dns_id \<Rightarrow> (Inr (PTuple [PStr ''udp'', dns_id, remote_addr, local_addr]), w))"
  by (auto simp: make_connection_id_def bind_positional_def dns0_def ServerInstance_init_def
      is_udp_class_def unpack_from_H_def split: list.splits sum.splits py_exception.splits)

text \<open>
  Claim C5, on the datagram of scenario S3 (twelve bytes, transaction id 0x1234).
  Called with its three arguments, \<open>DnsInstance.make_connection_id\<close> returns
  \<open>("udp", (0x1234,), peer, local)\<close>: the second component is the tuple that
  \<open>struct.unpack_from\<close> returns, not the integer. \<open>handle_udp_datagram\<close> itself calls
  the method with four arguments and raises \<open>TypeError\<close>: no handler is created and
  \<open>manager.connections\<close> stays empty.
\<close>

theorem dns_connection_id_1234:
  "make_connection_id env_ok dns0 [PBytes datagram_1234, addr_val peer0, addr_val local0] world0
     = (Inr (PTuple [PStr ''udp'', PTuple [PInt 0x1234], addr_val peer0, addr_val local0]), world0)
   \<and> PTuple [PStr ''udp'', PTuple [PInt 0x1234], addr_val peer0, addr_val local0]
       \<noteq> PTuple [PStr ''udp'', PInt 0x1234, addr_val peer0, addr_val local0]
   \<and> handle_udp_datagram env_ok dns0 0 datagram_1234 peer0 local0 world0 = (Inl TypeError, world0)
   \<and> connections (snd (handle_udp_datagram env_ok dns0 0 datagram_1234 peer0 local0 world0)) (manager dns0)
       = Map.empty"
  by (simp add: make_connection_id_dns unpack_datagram_1234 handle_udp_datagram_raises [OF dns0_udp]
      world0_def)

text \<open>
  Claim C6, on a datagram of one byte. Called with its three arguments the classifier
  returns \<open>None\<close> and writes the info line. \<open>handle_udp_datagram\<close> raises
  \<open>TypeError\<close> to its caller instead, and nothing is logged.
\<close>

theorem dns_short_datagram:
  "make_connection_id env_ok dns0 [PBytes datagram_short, addr_val peer0, addr_val local0] world0
     = (Inr PNone, world0\<lparr>log := [(''info'', ''Invalid DNS datagram received from address.'')]\<rparr>)
   \<and> handle_udp_datagram env_ok dns0 0 datagram_short peer0 local0 world0 = (Inl TypeError, world0)
   \<and> log (snd (handle_udp_datagram env_ok dns0 0 datagram_short peer0 local0 world0)) = []"
  by (simp add: make_connection_id_dns handle_udp_datagram_raises [OF dns0_udp]
      unpack_from_H_def datagram_short_def log_info_def world0_def env_ok_def)

lemma dispatch_hit:
  "connections w (manager self) cid = Some r \<Longrightarrow>
   handle_udp_datagram_dispatch env self cid t d ra la w = (Inr (), feed_data r d ra w)"
  by (simp add: handle_udp_datagram_dispatch_def)

lemma feed_data_keeps [simp]:
  "connections (feed_data r d ra w) = connections w"
  "tasks (feed_data r d ra w) = tasks w"
  "next_handler (feed_data r d ra w) = next_handler w"
  by (simp_all add: feed_data_def split: option.splits)

lemma feed_data_handler:
  "handlers w r = Some h \<Longrightarrow>
   handlers (feed_data r d ra w) r = Some (h\<lparr>reader_fed := reader_fed h @ [(d, ra)]\<rparr>)"
  by (simp add: feed_data_def)

lemma make_top_layer_dns:
  "cls self = DnsInstance \<Longrightarrow> \<exists>h'. make_top_layer self h = Inr h' \<and> reader_fed h' = reader_fed h"
  by (cases self) simp

text \<open>
  The lines of \<open>handle_udp_datagram\<close> after the classifier, on a connection id that is
  not registered yet: the handler is in \<open>manager.connections\<close> and its task is the newest
  pending one when the function returns, and a second datagram for the same id, handled
  before the task runs, finds that handler, creates nothing and is fed to the same reader
  after the first.
\<close>

lemma dispatch_miss_then_hit:
  assumes "cls self = DnsInstance" and "connections w (manager self) cid = None"
  shows "\<exists>w1 w2 r h.
      handle_udp_datagram_dispatch env self cid t d1 ra la w = (Inr (), w1)
      \<and> connections w1 (manager self) cid = Some r
      \<and> tasks w1 = tasks w @ [(cid, r)]
      \<and> handle_udp_datagram_dispatch env self cid t d2 ra la w1 = (Inr (), w2)
      \<and> connections w2 = connections w1
      \<and> tasks w2 = tasks w1
      \<and> next_handler w2 = next_handler w1
      \<and> handlers w2 r = Some h
      \<and> reader_fed h = [(d1, ra), (d2, ra)]"
proof -
  let ?h4 = "(if truthy (is_transparent self)
      then (new_handler env (mode self))\<lparr>reader_fed := [], client_transport_protocol := ''udp'',
             CONNECTION_TIMEOUT := 20, server_address := addr_val la\<rparr>
      else (new_handler env (mode self))\<lparr>reader_fed := [], client_transport_protocol := ''udp'',
             CONNECTION_TIMEOUT := 20\<rparr>)\<lparr>server_transport_protocol := ''udp''\<rparr>"
  from make_top_layer_dns [OF assms(1), of ?h4]
  obtain h5 where h5: "make_top_layer self ?h4 = Inr h5" and f5: "reader_fed h5 = []"
    by (auto split: if_splits)
  let ?r = "next_handler w"
  let ?w3 = "w\<lparr>handlers := (handlers w)(?r \<mapsto> h5), next_handler := ?r + 1,
      connections := (connections w)(manager self := (connections w (manager self))(cid \<mapsto> ?r)),
      tasks := tasks w @ [(cid, ?r)]\<rparr>"
  let ?w1 = "feed_data ?r d1 ra ?w3"
  have 1: "handle_udp_datagram_dispatch env self cid t d1 ra la w = (Inr (), ?w1)"
    using assms(2) h5 by (simp add: handle_udp_datagram_dispatch_def Let_def)
  have 2: "connections ?w1 (manager self) cid = Some ?r" by simp
  have 3: "tasks ?w1 = tasks w @ [(cid, ?r)]" by simp
  have 4: "handle_udp_datagram_dispatch env self cid t d2 ra la ?w1 = (Inr (), feed_data ?r d2 ra ?w1)"
    by (rule dispatch_hit [OF 2])
  have 5: "handlers ?w1 ?r = Some (h5\<lparr>reader_fed := [(d1, ra)]\<rparr>)"
    using feed_data_handler [of ?w3 ?r h5 d1 ra] f5 by simp
  have 6: "handlers (feed_data ?r d2 ra ?w1) ?r = Some (h5\<lparr>reader_fed := [(d1, ra), (d2, ra)]\<rparr>)"
    using feed_data_handler [OF 5, of d2 ra] by simp
  show ?thesis
    apply (rule exI [of _ ?w1])
    apply (rule exI [of _ "feed_data ?r d2 ra ?w1"])
    apply (rule exI [of _ ?r])
    apply (rule exI [of _ "h5\<lparr>reader_fed := [(d1, ra), (d2, ra)]\<rparr>"])
    using 1 2 3 4 6 apply simp
    done
qed

text \<open>
  Claim C7, on a datagram whose connection id is not registered (the registry is empty).
  \<open>handle_udp_datagram\<close> raises \<open>TypeError\<close> at its first statement: no handler is
  inserted into \<open>manager.connections\<close>, no task is created, nothing is fed.
\<close>

theorem unregistered_datagram_not_inserted:
  "connections world0 (manager dns0) = Map.empty
   \<and> fst (handle_udp_datagram env_ok dns0 0 datagram_5678 peer0 local0 world0) = Inl TypeError
   \<and> connections (snd (handle_udp_datagram env_ok dns0 0 datagram_5678 peer0 local0 world0)) (manager dns0)
       = Map.empty
   \<and> handlers (snd (handle_udp_datagram env_ok dns0 0 datagram_5678 peer0 local0 world0)) = Map.empty
   \<and> tasks (snd (handle_udp_datagram env_ok dns0 0 datagram_5678 peer0 local0 world0)) = []"
  by (simp add: handle_udp_datagram_raises [OF dns0_udp] world0_def)

section \<open>Construction and attributes of the UDP instances\<close>

lemma make_one_argument: "ServerInstance_make env [x] = Inl TypeError"
  by (simp add: ServerInstance_make.simps bind_positional_def)

lemma instantiate_udp:
  "instantiate env UdpInstance m g =
     (case inner_mode m of None \<Rightarrow> Inl AttributeError | Some im \<Rightarrow> Inl TypeError)"
  by (simp add: instantiate.simps make_one_argument Let_def split: option.splits)

text \<open>
  Claim C8, on the mode of scenario S5, \<open>udp:reverse:tcp://host:9\<close>. Constructing the
  \<open>UdpInstance\<close>, directly or through \<open>ServerInstance.make(mode, manager)\<close>, raises
  \<open>TypeError\<close>, because \<open>__init__\<close> calls \<open>ServerInstance.make\<close> with the inner
  mode alone. With both arguments the same call builds the inner reverse instance.
\<close>

theorem udp_instance_construction_raises:
  "instantiate env_ok UdpInstance mode_udp 0 = Inl TypeError
   \<and> ServerInstance_make env_ok [PMode mode_udp, PManager 0] = Inl TypeError
   \<and> inner_mode mode_udp = Some mode_reverse
   \<and> ServerInstance_make env_ok [PMode mode_reverse] = Inl TypeError
   \<and> ServerInstance_make env_ok [PMode mode_reverse, PManager 0]
       = Inr (ServerInstance_init ReverseInstance mode_reverse 0)"
proof -
  have a: "instantiate env_ok UdpInstance mode_udp 0 = Inl TypeError"
    by (simp add: instantiate_udp mode_udp_def)
  have b: "ServerInstance_make env_ok [PMode mode_udp, PManager 0] = instantiate env_ok UdpInstance mode_udp 0"
    by (simp add: ServerInstance_make.simps bind_positional_def modes_registry_def mode_udp_def)
  have c: "ServerInstance_make env_ok [PMode mode_reverse, PManager 0]
       = Inr (ServerInstance_init ReverseInstance mode_reverse 0)"
    by (simp add: ServerInstance_make.simps bind_positional_def modes_registry_def mode_reverse_def
        instantiate.simps)
  from a b c show ?thesis
    by (simp add: make_one_argument mode_udp_def)
qed

text \<open>
  Claim C9, on a DNS instance whose mode data is not \<open>"transparent"\<close>. The method, when
  called, returns \<open>False\<close>; but the base class reads \<open>self.is_transparent\<close> as an
  attribute, and that is the bound method, which is true in a condition and is what
  \<open>listen\<close> passes as \<open>transparent=\<close>. On a \<open>UdpInstance\<close> the attribute is a bound
  method as well.
\<close>

theorem dns_is_transparent_truthy:
  "data (mode dns0) \<noteq> ''transparent''
   \<and> call_is_transparent dns0 = Inr (PBool False)
   \<and> is_transparent dns0 = PBoundMethod ''DnsInstance.is_transparent''
   \<and> is_transparent dns0 \<noteq> PBool False
   \<and> truthy (is_transparent dns0)
   \<and> listen env dns0 host p = udp_start_server env host p (PBoundMethod ''DnsInstance.is_transparent'')
   \<and> is_transparent (Instance UdpInstance m g e s a i) = PBoundMethod ''UdpInstance.is_transparent''"
  by (simp add: dns0_def ServerInstance_init_def mode_dns_def listen_def is_udp_class_def)

section \<open>URL parsing\<close>

lemma full_path_startswith: "startswith (full_path_of uenv parsed) ''/''"
  by (simp add: full_path_of_def startswith_def Let_def)

lemma parse_Inr_D:
  assumes "parse uenv u = Inr (sc, host, p, fp)"
  shows "\<exists>parsed p0. parse_host uenv u = Inr (host, parsed) \<and> get_port uenv parsed = Inr p0
      \<and> sc = scheme parsed \<and> fp = full_path_of uenv parsed
      \<and> p = (case p0 of None \<Rightarrow> default_port (scheme parsed)
                       | Some q \<Rightarrow> if q = 0 then default_port (scheme parsed) else q)
      \<and> is_valid_host uenv host \<and> is_valid_port uenv p"
  using assms
  by (auto simp: parse_def Let_def split: sum.splits prod.splits if_splits)

lemma parse_host_no_hostname:
  "urlparse uenv u = Inr parsed \<Longrightarrow> get_hostname uenv parsed = None \<or> get_hostname uenv parsed = Some [] \<Longrightarrow>
   parse_host uenv u = Inl (ValueError ''No hostname given'')"
  by (auto simp: parse_host_def)

text \<open>
  Claim C10. If \<open>parse\<close> returns \<open>(scheme, host, port, path)\<close>, the path starts with
  \<open>/\<close> (it is what \<open>urlunparse\<close> gives for the path, parameters, query and fragment,
  with \<open>/\<close> put in front when it does not start with one), and when the parse result
  has no port the port returned is 443 for the scheme \<open>https\<close> and 80 for any other.
  \<open>ValueError\<close> is raised when the parse result has no host name, when
  \<open>is_valid_host\<close> rejects the host, and when the URL gives a port outside 0..65535
  (\<open>is_valid_port\<close> accepting nothing outside that range). The port of a URL is what
  the \<open>port\<close> property of the parse result reports; where reading that property raises
  (as the library does for a port it finds out of range), \<open>parse\<close> raises the same.
\<close>

theorem parse_result_and_errors:
  "(parse uenv u = Inr (sc, host, p, fp) \<longrightarrow>
      startswith fp ''/''
      \<and> (\<exists>parsed. parse_host uenv u = Inr (host, parsed) \<and> sc = scheme parsed
            \<and> fp = (let full_path = urlunparse uenv ([], [], path parsed, params parsed,
                                       query parsed, fragment parsed)
                     in if startswith full_path ''/'' then full_path else ''/'' @ full_path)
            \<and> (get_port uenv parsed = Inr None \<longrightarrow> p = (if sc = ''https'' then 443 else 80))))
   \<and> (urlparse uenv u = Inr parsed0
        \<and> (get_hostname uenv parsed0 = None \<or> get_hostname uenv parsed0 = Some []) \<longrightarrow>
      parse uenv u = Inl (ValueError ''No hostname given''))
   \<and> (parse_host uenv u = Inr (host1, parsed1) \<and> get_port uenv parsed1 = Inr p1
        \<and> \<not> is_valid_host uenv host1 \<longrightarrow>
      parse uenv u = Inl (ValueError ''Invalid Host''))
   \<and> (parse_host uenv u = Inr (host2, parsed2) \<and> get_port uenv parsed2 = Inr (Some q)
        \<and> (q < 0 \<or> 65535 < q) \<and> (\<forall>x. is_valid_port uenv x \<longrightarrow> 0 \<le> x \<and> x \<le> 65535) \<longrightarrow>
      (\<exists>msg. parse uenv u = Inl (ValueError msg)))
   \<and> (parse_host uenv u = Inr (host3, parsed3) \<and> get_port uenv parsed3 = Inl e \<longrightarrow>
      parse uenv u = Inl e)"
proof (intro conjI impI)
  assume a: "parse uenv u = Inr (sc, host, p, fp)"
  from parse_Inr_D [OF a] obtain parsed p0 where
    d: "parse_host uenv u = Inr (host, parsed)" "get_port uenv parsed = Inr p0"
       "sc = scheme parsed" "fp = full_path_of uenv parsed"
       "p = (case p0 of None \<Rightarrow> default_port (scheme parsed)
                       | Some q \<Rightarrow> if q = 0 then default_port (scheme parsed) else q)"
    by blast
  from d(4) show "startswith fp ''/''" by (simp add: full_path_startswith)
  have "get_port uenv parsed = Inr None \<longrightarrow> p = (if sc = ''https'' then 443 else 80)"
    using d(2,3,5) by (auto simp: default_port_def)
  with d(1,3,4)
  show "\<exists>parsed. parse_host uenv u = Inr (host, parsed) \<and> sc = scheme parsed
            \<and> fp = (let full_path = urlunparse uenv ([], [], path parsed, params parsed,
                                       query parsed, fragment parsed)
                     in if startswith full_path ''/'' then full_path else ''/'' @ full_path)
            \<and> (get_port uenv parsed = Inr None \<longrightarrow> p = (if sc = ''https'' then 443 else 80))"
    by (intro exI [of _ parsed]) (simp add: full_path_of_def Let_def)
next
  assume "urlparse uenv u = Inr parsed0
        \<and> (get_hostname uenv parsed0 = None \<or> get_hostname uenv parsed0 = Some [])"
  then have "parse_host uenv u = Inl (ValueError ''No hostname given'')"
    using parse_host_no_hostname by blast
  then show "parse uenv u = Inl (ValueError ''No hostname given'')"
    by (simp add: parse_def)
next
  assume "parse_host uenv u = Inr (host1, parsed1) \<and> get_port uenv parsed1 = Inr p1
        \<and> \<not> is_valid_host uenv host1"
  then show "parse uenv u = Inl (ValueError ''Invalid Host'')"
    by (simp add: parse_def Let_def)
next
  assume a: "parse_host uenv u = Inr (host2, parsed2) \<and> get_port uenv parsed2 = Inr (Some q)
        \<and> (q < 0 \<or> 65535 < q) \<and> (\<forall>x. is_valid_port uenv x \<longrightarrow> 0 \<le> x \<and> x \<le> 65535)"
  then have "q \<noteq> 0" and "\<not> is_valid_port uenv q" by auto
  with a show "\<exists>msg. parse uenv u = Inl (ValueError msg)"
    by (simp add: parse_def Let_def)
next
  assume "parse_host uenv u = Inr (host3, parsed3) \<and> get_port uenv parsed3 = Inl e"
  then show "parse uenv u = Inl e"
    by (simp add: parse_def)
qed

lemma parse_host_uenv0:
  "parse_host uenv0 (UrlBytes ''https://example.com'') =
     Inr (''example.com'', \<lparr>scheme = ''https'', netloc = ''example.com'', path = [], params = [],
            query = [], fragment = []\<rparr>)"
  "parse_host uenv0 (UrlBytes ''http://example.com:70000/a'') =
     Inr (''example.com'', \<lparr>scheme = ''http'', netloc = ''example.com:70000'', path = ''/a'', params = [],
            query = [], fragment = []\<rparr>)"
  "parse_host uenv0 (UrlBytes ''http://bad_host/'') =
     Inr (''bad_host'', \<lparr>scheme = ''http'', netloc = ''bad_host'', path = ''/'', params = [],
            query = [], fragment = []\<rparr>)"
  "parse_host uenv0 (UrlBytes ''http://example.com:99999/'') =
     Inr (''example.com'', \<lparr>scheme = ''http'', netloc = ''example.com:99999'', path = ''/'', params = [],
            query = [], fragment = []\<rparr>)"
  by (simp_all add: parse_host_def uenv0_def)

lemma parse_uenv0_https:
  "parse uenv0 (UrlBytes ''https://example.com'') = Inr (''https'', ''example.com'', 443, ''/'')"
proof -
  have e: "get_port uenv0 \<lparr>scheme = ''https'', netloc = ''example.com'', path = [], params = [],
            query = [], fragment = []\<rparr> = Inr None"
    "is_valid_host uenv0 ''example.com''" "is_valid_port uenv0 443"
    "urlunparse uenv0 ([], [], [], [], [], []) = []"
    by (simp_all add: uenv0_def)
  show ?thesis
    by (simp add: parse_def parse_host_uenv0 Let_def full_path_of_def startswith_def
        default_port_def e)
qed

text \<open>
  An accepted URL without a port, and one URL for each way of being refused.
\<close>

theorem parse_result_and_errors_witness:
  "parse uenv0 (UrlBytes ''https://example.com'') = Inr (''https'', ''example.com'', 443, ''/'')
   \<and> startswith ''/'' ''/''
   \<and> parse uenv0 (UrlBytes ''/nohost'') = Inl (ValueError ''No hostname given'')
   \<and> parse uenv0 (UrlBytes ''http://bad_host/'') = Inl (ValueError ''Invalid Host'')
   \<and> (\<exists>msg. parse uenv0 (UrlBytes ''http://example.com:70000/a'') = Inl (ValueError msg))
   \<and> parse uenv0 (UrlBytes ''http://example.com:99999/'') = Inl (ValueError ''Port out of range 0-65535'')"
proof -
  have a: "startswith ''/'' ''/''"
    using parse_result_and_errors [of uenv0 "UrlBytes ''https://example.com''" "''https''"
        "''example.com''" 443 "''/''"] parse_uenv0_https
    by blast
  have "urlparse uenv0 (UrlBytes ''/nohost'') =
      Inr \<lparr>scheme = [], netloc = [], path = ''/nohost'', params = [], query = [], fragment = []\<rparr>
    \<and> get_hostname uenv0 \<lparr>scheme = [], netloc = [], path = ''/nohost'', params = [], query = [], fragment = []\<rparr> = None"
    by (simp add: uenv0_def)
  then have b: "parse uenv0 (UrlBytes ''/nohost'') = Inl (ValueError ''No hostname given'')"
    using parse_result_and_errors [of uenv0 "UrlBytes ''/nohost''"] by blast
  have "get_port uenv0 \<lparr>scheme = ''http'', netloc = ''bad_host'', path = ''/'', params = [],
            query = [], fragment = []\<rparr> = Inr None \<and> \<not> is_valid_host uenv0 ''bad_host''"
    by (simp add: uenv0_def)
  then have c: "parse uenv0 (UrlBytes ''http://bad_host/'') = Inl (ValueError ''Invalid Host'')"
    using parse_result_and_errors [of uenv0 "UrlBytes ''http://bad_host/''"] parse_host_uenv0(3)
    by blast
  have "get_port uenv0 \<lparr>scheme = ''http'', netloc = ''example.com:70000'', path = ''/a'', params = [],
            query = [], fragment = []\<rparr> = Inr (Some 70000)
      \<and> ((70000::int) < 0 \<or> 65535 < (70000::int))
      \<and> (\<forall>x. is_valid_port uenv0 x \<longrightarrow> 0 \<le> x \<and> x \<le> 65535)"
    by (simp add: uenv0_def)
  then have d: "\<exists>msg. parse uenv0 (UrlBytes ''http://example.com:70000/a'') = Inl (ValueError msg)"
    using parse_result_and_errors [of uenv0 "UrlBytes ''http://example.com:70000/a''"] parse_host_uenv0(2)
    by blast
  have "get_port uenv0 \<lparr>scheme = ''http'', netloc = ''example.com:99999'', path = ''/'', params = [],
            query = [], fragment = []\<rparr> = Inl (ValueError ''Port out of range 0-65535'')"
    by (simp add: uenv0_def)
  then have e: "parse uenv0 (UrlBytes ''http://example.com:99999/'') = Inl (ValueError ''Port out of range 0-65535'')"
    using parse_result_and_errors [of uenv0 "UrlBytes ''http://example.com:99999/''"] parse_host_uenv0(4)
    by blast
  from a b c d e parse_uenv0_https show ?thesis by blast
qed

end
